theory Spec2Isabelle
  imports Complex_Main "HOL-Library.Word" "HOL-Library.Multiset"
begin

section \<open>Values of the ranking engine\<close>

text \<open>
  A Python \<open>str\<close> is a sequence of code points, so it is modelled as a list of naturals
  (\<open>len\<close> counts code points, and a lone surrogate is a legal element). Literals of the
  source are written with \<open>py\<close>. Python floats are modelled as reals, and the
  formulas of the code are read in exact arithmetic; where the code hands the arithmetic
  to numpy, in \<open>compute_similarity\<close>, numpy's operations are parameters.
\<close>

type_synonym pystr = "nat list"

definition py :: "string \<Rightarrow> pystr" where
  "py s = map of_char s"

datatype error =
    UnicodeEncodeError
  | ZeroDivisionError
  | ValueError
  | ProviderError
  | LoopDiverges

text \<open>
  \<open>publication_date\<close> is read either as a string or as a \<open>datetime\<close> object. A naive
  \<open>datetime\<close> is a point on the local time line, counted in microseconds.
\<close>

type_synonym datetime = int

datatype date_value = DateStr pystr | DateObj datetime

text \<open>
  The metadata dictionary of a chunk, by the keys the ranking code reads or writes.
  \<open>None\<close> is an absent key.
\<close>

record chunk_metadata =
  url :: "pystr option"
  source_type :: "pystr option"
  publication_date :: "date_value option"
  embedding :: "real list option"
  relevance_score :: "real option"
  quality_score :: "real option"
  recency_score :: "real option"
  authority_score :: "real option"
  final_score :: "real option"

definition empty_metadata :: chunk_metadata where
  "empty_metadata = \<lparr>url = None, source_type = None, publication_date = None,
     embedding = None, relevance_score = None, quality_score = None,
     recency_score = None, authority_score = None, final_score = None\<rparr>"

text \<open>
  A chunk (and a query) is a dictionary with the optional keys \<open>"text"\<close> and
  \<open>"metadata"\<close>. In this part each dictionary is a value; the sharing of one metadata
  dictionary between the argument and the result of a stage is modelled with an explicit
  store further down.
\<close>

record chunk =
  chunk_text :: "pystr option"
  metadata :: "chunk_metadata option"

text \<open>\<open>chunk.get("metadata", {})\<close> and \<open>chunk.get("text", "")\<close>.\<close>

definition get_metadata :: "chunk \<Rightarrow> chunk_metadata" where
  "get_metadata c = (case metadata c of None \<Rightarrow> empty_metadata | Some m \<Rightarrow> m)"

definition get_text :: "chunk \<Rightarrow> pystr" where
  "get_text c = (case chunk_text c of None \<Rightarrow> [] | Some t \<Rightarrow> t)"

text \<open>\<open>d.get(key, 0.5)\<close> on an optional score.\<close>

definition get_or :: "real option \<Rightarrow> real \<Rightarrow> real" where
  "get_or v d = (case v of None \<Rightarrow> d | Some x \<Rightarrow> x)"

section \<open>String operations of the Python library\<close>

text \<open>The code points for which \<open>str.isspace\<close> holds; \<open>str.split()\<close> splits on them.\<close>

definition isspace :: "nat \<Rightarrow> bool" where
  "isspace c \<longleftrightarrow>
     (9 \<le> c \<and> c \<le> 13) \<or> (28 \<le> c \<and> c \<le> 32) \<or> c = 133 \<or> c = 160 \<or> c = 5760 \<or>
     (8192 \<le> c \<and> c \<le> 8202) \<or> c = 8232 \<or> c = 8233 \<or> c = 8239 \<or> c = 8287 \<or> c = 12288"

text \<open>\<open>text.split()\<close>: the maximal runs of non-whitespace, in order. The first argument
  holds the current run, reversed.\<close>

fun split_from :: "pystr \<Rightarrow> pystr \<Rightarrow> pystr list" where
  "split_from cur [] = (if cur = [] then [] else [rev cur])"
| "split_from cur (c # cs) =
     (if isspace c
      then (if cur = [] then split_from [] cs else rev cur # split_from [] cs)
      else split_from (c # cur) cs)"

definition split :: "pystr \<Rightarrow> pystr list" where
  "split s = split_from [] s"

text \<open>\<open>s.startswith(p)\<close>, \<open>s.endswith(p)\<close> and the substring test \<open>p in s\<close>.\<close>

fun startswith :: "pystr \<Rightarrow> pystr \<Rightarrow> bool" where
  "startswith s [] = True"
| "startswith [] (p # ps) = False"
| "startswith (c # cs) (p # ps) = (c = p \<and> startswith cs ps)"

definition endswith :: "pystr \<Rightarrow> pystr \<Rightarrow> bool" where
  "endswith s p = startswith (rev s) (rev p)"

fun str_in :: "pystr \<Rightarrow> pystr \<Rightarrow> bool" where
  "str_in p [] = (p = [])"
| "str_in p (c # cs) = (startswith (c # cs) p \<or> str_in p cs)"

text \<open>
  \<open>str.lower\<close> is the library's Unicode lower-casing and is a parameter of the functions
  that call it. On ASCII text it is the following function.
\<close>

definition ascii_lower :: "pystr \<Rightarrow> pystr" where
  "ascii_lower s = map (\<lambda>c. if 65 \<le> c \<and> c \<le> 90 then c + 32 else c) s"

section \<open>RelevanceScorer.assess\_content\_quality\<close>

definition quality_indicators :: "pystr list" where
  "quality_indicators = map py
     [''introduction'', ''methodology'', ''results'', ''conclusion'', ''references'',
      ''abstract'', ''discussion'', ''analysis'', ''experiment'', ''findings'']"

definition indicator_count :: "(pystr \<Rightarrow> pystr) \<Rightarrow> pystr \<Rightarrow> nat" where
  "indicator_count lower txt =
     length (filter (\<lambda>indicator. str_in indicator (lower txt)) quality_indicators)"

definition assess_content_quality :: "(pystr \<Rightarrow> pystr) \<Rightarrow> chunk \<Rightarrow> real" where
  "assess_content_quality lower c =
     (let txt = get_text c;
          word_count = length (split txt);
          quality_score =
            (if word_count > 300 then 1
             else if word_count > 150 then 8 / 10
             else if word_count > 75 then 6 / 10
             else 4 / 10);
          n = indicator_count lower txt
      in if n \<ge> 3 then min 1 (quality_score + 2 / 10)
         else if n \<ge> 1 then min 1 (quality_score + 1 / 10)
         else quality_score)"

text \<open>The quality score as the specification words it, with inclusive thresholds.\<close>

definition quality_as_specified :: "(pystr \<Rightarrow> pystr) \<Rightarrow> chunk \<Rightarrow> real" where
  "quality_as_specified lower c =
     (let txt = get_text c;
          word_count = length (split txt);
          base =
            (if word_count \<ge> 300 then 1
             else if word_count \<ge> 150 then 8 / 10
             else if word_count \<ge> 75 then 6 / 10
             else 4 / 10);
          n = indicator_count lower txt;
          bonus = (if n \<ge> 3 then 2 / 10 else if n \<ge> 1 then 1 / 10 else 0)
      in min 1 (base + bonus))"

text \<open>A chunk whose text is \<open>n\<close> one-letter words.\<close>

definition words_chunk :: "nat \<Rightarrow> chunk" where
  "words_chunk n = \<lparr>chunk_text = Some (concat (replicate n (py ''a ''))), metadata = None\<rparr>"

section \<open>RankAggregator.rank\_chunks and select\_top\_chunks\<close>

text \<open>The sort key \<open>x.get("metadata", {}).get("final_score", 0)\<close>.\<close>

definition final_score_key :: "chunk \<Rightarrow> real" where
  "final_score_key c = get_or (final_score (get_metadata c)) 0"

text \<open>
  \<open>sorted(chunks, key=..., reverse=True)\<close> is the library's stable sort under the
  reversed order: an element goes in front of the first later element whose key is not
  greater than its own. This is the stable insertion sort on the negated key.
\<close>

definition rank_chunks :: "chunk list \<Rightarrow> chunk list" where
  "rank_chunks chunks = sort_key (\<lambda>c. - final_score_key c) chunks"



section \<open>RankAggregator.compute\_authority\_scores\<close>

text \<open>The domain table; a Python dictionary keeps the order of insertion, which the loop
  over \<open>items()\<close> follows.\<close>

definition domain_scores :: "(pystr \<times> real) list" where
  "domain_scores =
     [(py ''arxiv.org'', 85 / 100),
      (py ''scholar.google.com'', 80 / 100),
      (py ''pubmed.ncbi.nlm.nih.gov'', 90 / 100),
      (py ''nature.com'', 95 / 100),
      (py ''science.org'', 95 / 100),
      (py ''ieee.org'', 85 / 100),
      (py ''acm.org'', 85 / 100),
      (py ''nih.gov'', 90 / 100),
      (py ''edu'', 80 / 100),
      (py ''gov'', 85 / 100),
      (py ''org'', 75 / 100),
      (py ''com'', 60 / 100)]"

text \<open>
  \<open>re.search(r'https?://(?:www\.)?([^/]+)', url)\<close>: the leftmost position at which the
  pattern matches, each optional part tried first with and then without its text, and
  group 1 the longest run of characters other than \<open>/\<close> (code point 47).
\<close>

fun strip_prefix :: "pystr \<Rightarrow> pystr \<Rightarrow> pystr option" where
  "strip_prefix [] s = Some s"
| "strip_prefix (p # ps) [] = None"
| "strip_prefix (p # ps) (c # cs) = (if p = c then strip_prefix ps cs else None)"

definition group1 :: "pystr \<Rightarrow> pystr option" where
  "group1 s = (let g = takeWhile (\<lambda>c. c \<noteq> 47) s in if g = [] then None else Some g)"

definition after_scheme :: "pystr \<Rightarrow> pystr option" where
  "after_scheme s =
     (case strip_prefix (py ''://'') s of
        None \<Rightarrow> None
      | Some r \<Rightarrow>
          (case strip_prefix (py ''www.'') r of
             None \<Rightarrow> group1 r
           | Some r' \<Rightarrow> (case group1 r' of Some g \<Rightarrow> Some g | None \<Rightarrow> group1 r)))"

definition match_here :: "pystr \<Rightarrow> pystr option" where
  "match_here s =
     (case strip_prefix (py ''http'') s of
        None \<Rightarrow> None
      | Some r \<Rightarrow>
          (case strip_prefix (py ''s'') r of
             None \<Rightarrow> after_scheme r
           | Some r' \<Rightarrow> (case after_scheme r' of Some g \<Rightarrow> Some g | None \<Rightarrow> after_scheme r)))"

fun re_search_domain :: "pystr \<Rightarrow> pystr option" where
  "re_search_domain [] = None"
| "re_search_domain (c # cs) =
     (case match_here (c # cs) of Some g \<Rightarrow> Some g | None \<Rightarrow> re_search_domain cs)"

text \<open>\<open>domain_match.group(1) if domain_match else ""\<close>.\<close>

definition extract_domain :: "pystr \<Rightarrow> pystr" where
  "extract_domain u = (case re_search_domain u of None \<Rightarrow> [] | Some d \<Rightarrow> d)"

text \<open>The exact match, else the first entry \<open>d\<close> of the table with
  \<open>domain.endswith("." + d)\<close>, else the default.\<close>

definition partial_match :: "pystr \<Rightarrow> (pystr \<times> real) option" where
  "partial_match domain = find (\<lambda>(d, score). endswith domain (46 # d)) domain_scores"

definition domain_authority :: "pystr \<Rightarrow> real" where
  "domain_authority domain =
     (case map_of domain_scores domain of
        Some v \<Rightarrow> v
      | None \<Rightarrow>
          (case partial_match domain of
             Some (d, score) \<Rightarrow> score * (9 / 10)
           | None \<Rightarrow> 1 / 2))"

definition authority_of :: "chunk_metadata \<Rightarrow> real" where
  "authority_of md =
     (let u = (case url md of None \<Rightarrow> [] | Some s \<Rightarrow> s);
          domain = extract_domain u;
          a = domain_authority domain;
          st = (case source_type md of None \<Rightarrow> [] | Some s \<Rightarrow> s)
      in if st = py ''academic'' then min 1 (a * (11 / 10)) else a)"

definition with_authority :: "chunk \<Rightarrow> chunk" where
  "with_authority c =
     \<lparr>chunk_text = Some (get_text c),
      metadata = Some ((get_metadata c)\<lparr>authority_score := Some (authority_of (get_metadata c))\<rparr>)\<rparr>"

definition compute_authority_scores :: "chunk list \<Rightarrow> chunk list" where
  "compute_authority_scores chunks = map with_authority chunks"

section \<open>RankAggregator.\_load\_weights and calculate\_final\_scores\<close>

record weights =
  semantic :: real
  authority :: real
  recency :: real

text \<open>The \<open>ranking\<close> section of the settings file, by the keys that are read.\<close>

record ranking_config =
  weight_semantic :: "real option"
  weight_authority :: "real option"
  weight_recency :: "real option"

definition default_weights :: weights where
  "default_weights = \<lparr>semantic = 5 / 10, authority = 3 / 10, recency = 2 / 10\<rparr>"

text \<open>The argument is \<open>None\<close> when the settings file is missing or reading it raises.\<close>

definition load_weights :: "ranking_config option \<Rightarrow> weights" where
  "load_weights cfg =
     (case cfg of
        None \<Rightarrow> default_weights
      | Some rc \<Rightarrow>
          (let w = \<lparr>semantic = get_or (weight_semantic rc) (semantic default_weights),
                    authority = get_or (weight_authority rc) (authority default_weights),
                    recency = get_or (weight_recency rc) (recency default_weights)\<rparr>;
               total = semantic w + authority w + recency w
           in if total > 0
              then \<lparr>semantic = semantic w / total, authority = authority w / total,
                    recency = recency w / total\<rparr>
              else w))"

text \<open>The fused score of one chunk. Python's float division raises on a zero divisor.\<close>

definition final_score_of :: "weights \<Rightarrow> chunk_metadata \<Rightarrow> error + real" where
  "final_score_of w md =
     (let relevance = get_or (relevance_score md) (1 / 2);
          auth = get_or (authority_score md) (1 / 2);
          rec = get_or (recency_score md) (1 / 2);
          quality = get_or (quality_score md) (1 / 2);
          divisor = (semantic w + authority w + recency w) + 1 / 10
      in if divisor = 0 then Inl ZeroDivisionError
         else Inr ((relevance * semantic w + auth * authority w + rec * recency w
                     + quality * (1 / 10)) / divisor))"

fun calculate_final_scores :: "weights \<Rightarrow> chunk list \<Rightarrow> error + chunk list" where
  "calculate_final_scores w [] = Inr []"
| "calculate_final_scores w (c # cs) =
     (case final_score_of w (get_metadata c) of
        Inl e \<Rightarrow> Inl e
      | Inr f \<Rightarrow>
          (case calculate_final_scores w cs of
             Inl e \<Rightarrow> Inl e
           | Inr rs \<Rightarrow>
               Inr (\<lparr>chunk_text = Some (get_text c),
                      metadata = Some ((get_metadata c)\<lparr>final_score := Some f\<rparr>)\<rparr> # rs)))"

text \<open>The fused score as one expression.\<close>

definition fused :: "weights \<Rightarrow> chunk_metadata \<Rightarrow> real" where
  "fused w md =
     (get_or (relevance_score md) (1 / 2) * semantic w
      + get_or (authority_score md) (1 / 2) * authority w
      + get_or (recency_score md) (1 / 2) * recency w
      + get_or (quality_score md) (1 / 2) * (1 / 10))
     / (semantic w + authority w + recency w + 1 / 10)"

section \<open>RelevanceScorer.calculate\_recency\_score\<close>

text \<open>
  \<open>datetime.strptime\<close> is a parameter: it returns the parsed date, or \<open>None\<close> where the
  library raises \<open>ValueError\<close>. The clock reading \<open>datetime.now()\<close> is a parameter too.
\<close>

type_synonym strptime_fn = "pystr \<Rightarrow> pystr \<Rightarrow> datetime option"

definition date_formats :: "pystr list" where
  "date_formats = map py [''%Y-%m-%d'', ''%Y/%m/%d'', ''%Y-%m-%dT%H:%M:%S'']"

fun parse_formats :: "strptime_fn \<Rightarrow> pystr \<Rightarrow> pystr list \<Rightarrow> datetime option" where
  "parse_formats strptime s [] = None"
| "parse_formats strptime s (fmt # fmts) =
     (case strptime s fmt of Some d \<Rightarrow> Some d | None \<Rightarrow> parse_formats strptime s fmts)"

text \<open>\<open>(now - pub_date).days\<close>: a \<open>timedelta\<close> keeps the floor of the difference in days.\<close>

definition days_old_of :: "datetime \<Rightarrow> datetime \<Rightarrow> int" where
  "days_old_of now pub_date = (now - pub_date) div 86400000000"

definition decay :: "int \<Rightarrow> real" where
  "decay days_old = (let years_old = real_of_int days_old / 365 in max 0 (1 - years_old / 5))"

definition calculate_recency_score :: "strptime_fn \<Rightarrow> datetime \<Rightarrow> chunk \<Rightarrow> real" where
  "calculate_recency_score strptime now c =
     (case publication_date (get_metadata c) of
        None \<Rightarrow> 1 / 2
      | Some date_str \<Rightarrow>
          if date_str = DateStr [] then 1 / 2
          else
            (case (case date_str of
                     DateObj d \<Rightarrow> Some d
                   | DateStr s \<Rightarrow> parse_formats strptime s date_formats) of
               None \<Rightarrow> 1 / 2
             | Some pub_date \<Rightarrow> decay (days_old_of now pub_date)))"

section \<open>ContentEmbedder\<close>

text \<open>
  \<open>text.encode()\<close>: UTF-8. A surrogate code point (D800 to DFFF) cannot be encoded and
  the library raises \<open>UnicodeEncodeError\<close>.
\<close>

type_synonym byte = "8 word"

definition utf8_char :: "nat \<Rightarrow> byte list option" where
  "utf8_char c =
     (if c < 128 then Some [of_nat c]
      else if c < 2048 then Some [of_nat (192 + c div 64), of_nat (128 + c mod 64)]
      else if 55296 \<le> c \<and> c \<le> 57343 then None
      else if c < 65536
        then Some [of_nat (224 + c div 4096), of_nat (128 + (c div 64) mod 64),
                   of_nat (128 + c mod 64)]
      else if c < 1114112
        then Some [of_nat (240 + c div 262144), of_nat (128 + (c div 4096) mod 64),
                   of_nat (128 + (c div 64) mod 64), of_nat (128 + c mod 64)]
      else None)"

fun encode :: "pystr \<Rightarrow> error + byte list" where
  "encode [] = Inr []"
| "encode (c # cs) =
     (case utf8_char c of
        None \<Rightarrow> Inl UnicodeEncodeError
      | Some bs \<Rightarrow> (case encode cs of Inl e \<Rightarrow> Inl e | Inr rest \<Rightarrow> Inr (bs @ rest)))"

text \<open>
  The embedder and what it calls outside the repository:
  \<^item> \<open>remote_call\<close>: the HTTP request of \<open>_api_embedding\<close> and the reading of its answer;
    it raises, returns \<open>None\<close> or returns a vector;
  \<^item> \<open>local_encode\<close>: loading the local model and encoding with it; it raises or returns
    a vector;
  \<^item> \<open>md5\<close>: \<open>hashlib.md5(...).digest()\<close>, sixteen bytes, given by index;
  \<^item> \<open>np_norm\<close> and \<open>np_dot\<close>: \<open>np.linalg.norm\<close> and \<open>np.dot\<close>, numpy's routines in
    float64 arithmetic; \<open>np.dot\<close> raises on vectors it cannot multiply;
  \<^item> \<open>float64\<close>: the rounding that a float64 product or quotient applies to the exact
    result.
  What float64 arithmetic returns is not what the reals give (the cosine of a vector with
  itself can come out above 1), so these are parameters and nothing is assumed of them.
\<close>

record embedder =
  api_key :: pystr
  remote_call :: "pystr \<Rightarrow> error + real list option"
  local_encode :: "pystr \<Rightarrow> error + real list"
  md5 :: "byte list \<Rightarrow> nat \<Rightarrow> byte"
  np_norm :: "real list \<Rightarrow> real"
  np_dot :: "real list \<Rightarrow> real list \<Rightarrow> error + real"
  float64 :: "real \<Rightarrow> real"

definition api_embedding :: "embedder \<Rightarrow> pystr \<Rightarrow> error + real list option" where
  "api_embedding E txt = (if api_key E = [] then Inr None else remote_call E txt)"

definition local_embedding :: "embedder \<Rightarrow> pystr \<Rightarrow> error + real list option" where
  "local_embedding E txt =
     (case local_encode E txt of Inl e \<Rightarrow> Inr None | Inr v \<Rightarrow> Inr (Some v))"

text \<open>
  The loop \<open>while len(embedding) < 1536: embedding = concatenate([embedding, embedding])\<close>.
  It does not return on an empty vector, so it is a partial function.
\<close>

partial_function (option) tile :: "real list \<Rightarrow> real list option" where
  "tile emb = (if length emb < 1536 then tile (emb @ emb) else Some emb)"

definition digest_values :: "(nat \<Rightarrow> byte) \<Rightarrow> real list" where
  "digest_values d = map (\<lambda>i. real (unat (d i)) / 128 - 1) [0..<16]"

definition mock_embedding :: "embedder \<Rightarrow> pystr \<Rightarrow> error + real list" where
  "mock_embedding E txt =
     (case encode txt of
        Inl e \<Rightarrow> Inl e
      | Inr bs \<Rightarrow>
          (case tile (digest_values (md5 E bs)) of
             None \<Rightarrow> Inl LoopDiverges
           | Some emb \<Rightarrow> Inr (take 1536 emb)))"

definition mock_method :: "embedder \<Rightarrow> pystr \<Rightarrow> error + real list option" where
  "mock_method E txt = (case mock_embedding E txt of Inl e \<Rightarrow> Inl e | Inr v \<Rightarrow> Inr (Some v))"

text \<open>The loop over the methods: an exception or a falsy result moves on to the next one.\<close>

fun try_methods :: "(pystr \<Rightarrow> error + real list option) list \<Rightarrow> pystr \<Rightarrow> real list option" where
  "try_methods [] txt = None"
| "try_methods (m # ms) txt =
     (case m txt of
        Inl e \<Rightarrow> try_methods ms txt
      | Inr None \<Rightarrow> try_methods ms txt
      | Inr (Some emb) \<Rightarrow> (if emb \<noteq> [] then Some emb else try_methods ms txt))"

definition embed_content :: "embedder \<Rightarrow> pystr \<Rightarrow> error + real list" where
  "embed_content E txt =
     (case try_methods [api_embedding E, local_embedding E, mock_method E] txt of
        Some emb \<Rightarrow> Inr emb
      | None \<Rightarrow> mock_embedding E txt)"

text \<open>
  \<open>compute_similarity\<close>: the norms are taken first and a zero norm gives 0.0; then
  \<open>np.dot(vec1, vec2) / (norm1 * norm2)\<close>, where \<open>np.dot\<close> may raise.
\<close>

definition compute_similarity :: "embedder \<Rightarrow> real list \<Rightarrow> real list \<Rightarrow> error + real" where
  "compute_similarity E embedding1 embedding2 =
     (if embedding1 = [] \<or> embedding2 = [] then Inr 0
      else
        (let norm1 = np_norm E embedding1; norm2 = np_norm E embedding2
         in if norm1 = 0 \<or> norm2 = 0 then Inr 0
            else (case np_dot E embedding1 embedding2 of
                    Inl e \<Rightarrow> Inl e
                  | Inr d \<Rightarrow> Inr (float64 E (d / float64 E (norm1 * norm2))))))"

section \<open>RelevanceScorer.score\_chunks\<close>

text \<open>
  The stored embedding of a chunk or a query if it is truthy, else the embedding of its
  text if it has one, else the stored value.
\<close>

definition truthy :: "real list option \<Rightarrow> bool" where
  "truthy e = (case e of None \<Rightarrow> False | Some v \<Rightarrow> v \<noteq> [])"

definition get_or_embed :: "embedder \<Rightarrow> chunk \<Rightarrow> error + real list option" where
  "get_or_embed E c =
     (let e0 = embedding (get_metadata c)
      in if truthy e0 then Inr e0
         else (case chunk_text c of
                 None \<Rightarrow> Inr e0
               | Some t \<Rightarrow> (case embed_content E t of Inl e \<Rightarrow> Inl e | Inr v \<Rightarrow> Inr (Some v))))"




section \<open>ContentSelector\<close>

text \<open>What the pipeline takes from outside: the embedder, \<open>str.lower\<close>,
  \<open>datetime.strptime\<close>, the clock reading of \<open>datetime.now()\<close> and the loaded weights.\<close>

record pipeline =
  the_embedder :: embedder
  str_lower :: "pystr \<Rightarrow> pystr"
  strptime :: strptime_fn
  now :: datetime
  the_weights :: weights






section \<open>RankingSystem\<close>









section \<open>The stages with the metadata dictionaries in a store\<close>

text \<open>
  In the source a chunk holds a reference to its metadata dictionary, and a stage that
  writes \<open>metadata[key] = value\<close> writes to the dictionary the caller holds. Here the
  dictionaries live in a store, addressed by their position, and a chunk holds an address.
  \<open>chunk.get("metadata", {})\<close> makes a new dictionary when the key is absent.
  Two chunks that hold the same address see each other's writes. The authority stage and
  the fusion stage read no key they write, and return the values of the stages above
  whatever is shared, as shown at the end.
\<close>

type_synonym addr = nat
type_synonym store = "chunk_metadata list"

record chunk_ref =
  ref_text :: "pystr option"
  ref_metadata :: "addr option"

definition metadata_ref :: "store \<Rightarrow> chunk_ref \<Rightarrow> store \<times> addr" where
  "metadata_ref s c =
     (case ref_metadata c of None \<Rightarrow> (s @ [empty_metadata], length s) | Some a \<Rightarrow> (s, a))"

definition ref_get_text :: "chunk_ref \<Rightarrow> pystr" where
  "ref_get_text c = (case ref_text c of None \<Rightarrow> [] | Some t \<Rightarrow> t)"

text \<open>The chunk a reference stands for in a store.\<close>

definition chunk_at :: "store \<Rightarrow> chunk_ref \<Rightarrow> chunk" where
  "chunk_at s c =
     \<lparr>chunk_text = ref_text c,
      metadata = (case ref_metadata c of None \<Rightarrow> None | Some a \<Rightarrow> Some (s ! a))\<rparr>"

fun compute_authority_scores_store :: "store \<Rightarrow> chunk_ref list \<Rightarrow> chunk_ref list \<times> store" where
  "compute_authority_scores_store s [] = ([], s)"
| "compute_authority_scores_store s (c # cs) =
     (let (s1, a) = metadata_ref s c;
          md = s1 ! a;
          s2 = s1[a := md\<lparr>authority_score := Some (authority_of md)\<rparr>];
          result_chunk = \<lparr>ref_text = Some (ref_get_text c), ref_metadata = Some a\<rparr>;
          (rs, s3) = compute_authority_scores_store s2 cs
      in (result_chunk # rs, s3))"

text \<open>A raised exception leaves the writes made before it in the store.\<close>

fun calculate_final_scores_store ::
  "weights \<Rightarrow> store \<Rightarrow> chunk_ref list \<Rightarrow> (error + chunk_ref list) \<times> store" where
  "calculate_final_scores_store w s [] = (Inr [], s)"
| "calculate_final_scores_store w s (c # cs) =
     (let (s1, a) = metadata_ref s c;
          md = s1 ! a
      in case final_score_of w md of
           Inl e \<Rightarrow> (Inl e, s1)
         | Inr f \<Rightarrow>
             (let s2 = s1[a := md\<lparr>final_score := Some f\<rparr>];
                  result_chunk = \<lparr>ref_text = Some (ref_get_text c), ref_metadata = Some a\<rparr>
              in case calculate_final_scores_store w s2 cs of
                   (Inl e, s3) \<Rightarrow> (Inl e, s3)
                 | (Inr rs, s3) \<Rightarrow> (Inr (result_chunk # rs), s3)))"

fun score_loop_store ::
  "embedder \<Rightarrow> (pystr \<Rightarrow> pystr) \<Rightarrow> real list \<Rightarrow> store \<Rightarrow> chunk_ref list
     \<Rightarrow> (error + chunk_ref list) \<times> store" where
  "score_loop_store E lower query_embedding s [] = (Inr [], s)"
| "score_loop_store E lower query_embedding s (c # cs) =
     (let (s1, a) = metadata_ref s c;
          md = s1 ! a
      in case (if truthy (embedding md) then Inr (embedding md)
               else (case ref_text c of
                       None \<Rightarrow> Inr (embedding md)
                     | Some t \<Rightarrow> (case embed_content E t of
                                    Inl e \<Rightarrow> Inl e
                                  | Inr v \<Rightarrow> Inr (Some v)))) of
           Inl e \<Rightarrow> (Inl e, s1)
         | Inr chunk_embedding \<Rightarrow>
             if \<not> truthy chunk_embedding
             then
               (let s2 = s1[a := md\<lparr>relevance_score := Some (1 / 10)\<rparr>]
                in case score_loop_store E lower query_embedding s2 cs of
                     (Inl e, s3) \<Rightarrow> (Inl e, s3)
                   | (Inr rs, s3) \<Rightarrow> (Inr (c # rs), s3))
             else
               (case compute_similarity E query_embedding
                       (case chunk_embedding of None \<Rightarrow> [] | Some v \<Rightarrow> v) of
                  Inl e \<Rightarrow> (Inl e, s1)
                | Inr similarity \<Rightarrow>
                    (let quality = assess_content_quality lower
                           \<lparr>chunk_text = ref_text c, metadata = None\<rparr>;
                         s2 = s1[a := md\<lparr>relevance_score := Some similarity,
                                         quality_score := Some quality,
                                         embedding := chunk_embedding\<rparr>];
                         scored_chunk = \<lparr>ref_text = Some (ref_get_text c), ref_metadata = Some a\<rparr>
                     in case score_loop_store E lower query_embedding s2 cs of
                          (Inl e, s3) \<Rightarrow> (Inl e, s3)
                        | (Inr rs, s3) \<Rightarrow> (Inr (scored_chunk # rs), s3))))"

text \<open>\<open>score_chunks\<close> with the query given as a value: only the chunks are followed
  through the store.\<close>

definition score_chunks_store ::
  "embedder \<Rightarrow> (pystr \<Rightarrow> pystr) \<Rightarrow> chunk \<Rightarrow> store \<Rightarrow> chunk_ref list
     \<Rightarrow> (error + chunk_ref list) \<times> store" where
  "score_chunks_store E lower query s chunks =
     (case get_or_embed E query of
        Inl e \<Rightarrow> (Inl e, s)
      | Inr query_embedding \<Rightarrow>
          if \<not> truthy query_embedding then (Inr chunks, s)
          else score_loop_store E lower
                 (case query_embedding of None \<Rightarrow> [] | Some v \<Rightarrow> v) s chunks)"

text \<open>The recency stage of \<open>select_content\<close> writes to a copy: \<open>metadata.copy()\<close> is a new
  dictionary.\<close>

fun recency_stage_store ::
  "strptime_fn \<Rightarrow> datetime \<Rightarrow> store \<Rightarrow> chunk_ref list \<Rightarrow> chunk_ref list \<times> store" where
  "recency_stage_store sp t s [] = ([], s)"
| "recency_stage_store sp t s (c # cs) =
     (let recency_score' = calculate_recency_score sp t (chunk_at s c);
          md = (get_metadata (chunk_at s c))\<lparr>recency_score := Some recency_score'\<rparr>;
          s1 = s @ [md];
          new_chunk = \<lparr>ref_text = Some (ref_get_text c), ref_metadata = Some (length s)\<rparr>;
          (rs, s2) = recency_stage_store sp t s1 cs
      in (new_chunk # rs, s2))"

text \<open>
  The shape the authority stage and the fusion stage share: one update \<open>u\<close> written to
  the metadata dictionary of each chunk in turn. A list of chunks fits a store when every
  address it holds is in the store.
\<close>

fun map_store :: "(chunk_metadata \<Rightarrow> chunk_metadata) \<Rightarrow> store \<Rightarrow> chunk_ref list
    \<Rightarrow> chunk_ref list \<times> store" where
  "map_store u s [] = ([], s)"
| "map_store u s (c # cs) =
     (let (s1, a) = metadata_ref s c;
          s2 = s1[a := u (s1 ! a)];
          (rs, s3) = map_store u s2 cs
      in (\<lparr>ref_text = Some (ref_get_text c), ref_metadata = Some a\<rparr> # rs, s3))"

definition refs_in :: "store \<Rightarrow> chunk_ref list \<Rightarrow> bool" where
  "refs_in s cs =
     list_all (\<lambda>c. case ref_metadata c of None \<Rightarrow> True | Some a \<Rightarrow> a < length s) cs"

section \<open>Example values\<close>

text \<open>A chunk that carries a final score.\<close>

definition scored :: "string \<Rightarrow> real \<Rightarrow> chunk" where
  "scored name v =
     \<lparr>chunk_text = Some (py name), metadata = Some (empty_metadata\<lparr>final_score := Some v\<rparr>)\<rparr>"

text \<open>Two chunks with a source: a journal article marked academic, and a page on a
  university host.\<close>

definition nature_chunk :: chunk where
  "nature_chunk =
     \<lparr>chunk_text = Some (py ''Results.''),
      metadata = Some (empty_metadata
        \<lparr>url := Some (py ''https://www.nature.com/articles/x''),
         source_type := Some (py ''academic'')\<rparr>)\<rparr>"

definition campus_chunk :: chunk where
  "campus_chunk =
     \<lparr>chunk_text = Some (py ''Notes.''),
      metadata = Some (empty_metadata\<lparr>url := Some (py ''http://cs.mit.edu/notes'')\<rparr>)\<rparr>"

text \<open>A chunk with three of the four signals, and a settings file whose weights sum
  to \<open>-0.1\<close>.\<close>

definition signals_chunk :: chunk where
  "signals_chunk =
     \<lparr>chunk_text = Some (py ''First chunk''),
      metadata = Some (empty_metadata
        \<lparr>relevance_score := Some (9 / 10), recency_score := Some (8 / 10),
         authority_score := Some (7 / 10)\<rparr>)\<rparr>"

definition negative_config :: ranking_config where
  "negative_config =
     \<lparr>weight_semantic = Some (- (1 / 10)), weight_authority = Some 0,
      weight_recency = Some 0\<rparr>"

text \<open>
  A date parser for the examples: the first two formats, on a string of four, two and two
  digits, with the day count of the proleptic Gregorian calendar.
\<close>

definition is_digits :: "pystr \<Rightarrow> bool" where
  "is_digits s \<longleftrightarrow> s \<noteq> [] \<and> list_all (\<lambda>c. 48 \<le> c \<and> c \<le> 57) s"

definition number :: "pystr \<Rightarrow> nat" where
  "number s = foldl (\<lambda>n c. 10 * n + (c - 48)) 0 s"

definition days_in_month :: "nat \<Rightarrow> nat \<Rightarrow> nat" where
  "days_in_month y m =
     (if m = 2 then (if y mod 4 = 0 \<and> (y mod 100 \<noteq> 0 \<or> y mod 400 = 0) then 29 else 28)
      else if m = 4 \<or> m = 6 \<or> m = 9 \<or> m = 11 then 30 else 31)"

definition days_from_civil :: "nat \<Rightarrow> nat \<Rightarrow> nat \<Rightarrow> int" where
  "days_from_civil y m d =
     (let y' = (if m \<le> 2 then int y - 1 else int y);
          era = y' div 400;
          yoe = y' - era * 400;
          doy = (153 * (if m > 2 then int m - 3 else int m + 9) + 2) div 5 + int d - 1;
          doe = yoe * 365 + yoe div 4 - yoe div 100 + doy
      in era * 146097 + doe - 719468)"

definition example_strptime :: strptime_fn where
  "example_strptime s fmt =
     (case (if fmt = py ''%Y-%m-%d'' then Some 45
            else if fmt = py ''%Y/%m/%d'' then Some 47 else None) of
        None \<Rightarrow> None
      | Some sep \<Rightarrow>
          (let y = number (take 4 s); m = number (take 2 (drop 5 s)); d = number (drop 8 s)
           in if length s = 10 \<and> is_digits (take 4 s) \<and> s ! 4 = sep
                 \<and> is_digits (take 2 (drop 5 s)) \<and> s ! 7 = sep \<and> is_digits (drop 8 s)
                 \<and> 1 \<le> y \<and> 1 \<le> m \<and> m \<le> 12 \<and> 1 \<le> d \<and> d \<le> days_in_month y m
              then Some (days_from_civil y m d * 86400000000)
              else None))"

text \<open>Midnight of 4 November 2026, and chunks dated one year before it, long before it,
  with a date in no accepted format, and with no date.\<close>

definition example_now :: datetime where
  "example_now = days_from_civil 2026 11 4 * 86400000000"

definition dated_chunk :: "string \<Rightarrow> chunk" where
  "dated_chunk d =
     \<lparr>chunk_text = Some (py ''Dated.''),
      metadata = Some (empty_metadata\<lparr>publication_date := Some (DateStr (py d))\<rparr>)\<rparr>"

definition undated_chunk :: chunk where
  "undated_chunk = \<lparr>chunk_text = Some (py ''Undated.''), metadata = Some empty_metadata\<rparr>"

text \<open>
  An embedder with no API key and no local model. In the examples the digest is a
  stand-in: no property depends on which sixteen bytes the digest gives. The norm and the
  dot product of the examples are the exact ones, with no rounding; the examples use them
  on vectors with the entries 1 and -1 only, where float64 arithmetic is exact.
\<close>

definition example_digest :: "byte list \<Rightarrow> nat \<Rightarrow> byte" where
  "example_digest bs i = of_nat (sum_list (map unat bs) + 17 * i)"

definition exact_norm :: "real list \<Rightarrow> real" where
  "exact_norm v = sqrt (sum_list (map (\<lambda>x. x * x) v))"

definition exact_dot :: "real list \<Rightarrow> real list \<Rightarrow> error + real" where
  "exact_dot a b =
     (if length a \<noteq> length b then Inl ValueError else Inr (sum_list (map2 (*) a b)))"

definition offline_embedder :: embedder where
  "offline_embedder =
     \<lparr>api_key = [], remote_call = (\<lambda>t. Inl ProviderError),
      local_encode = (\<lambda>t. Inl ProviderError), md5 = example_digest,
      np_norm = exact_norm, np_dot = exact_dot, float64 = (\<lambda>x. x)\<rparr>"


text \<open>A vector doubled \<open>k\<close> times.\<close>

definition doubled :: "nat \<Rightarrow> 'a list \<Rightarrow> 'a list" where
  "doubled k xs = ((\<lambda>ys. ys @ ys) ^^ k) xs"






text \<open>A chunk and a query that carry their embedding.\<close>

definition embedded_chunk :: "string \<Rightarrow> real list \<Rightarrow> chunk" where
  "embedded_chunk txt v =
     \<lparr>chunk_text = Some (py txt), metadata = Some (empty_metadata\<lparr>embedding := Some v\<rparr>)\<rparr>"


text \<open>A caller's chunk: its metadata dictionary is the only one in the store, at
  address 0.\<close>

definition caller_metadata :: chunk_metadata where
  "caller_metadata =
     empty_metadata\<lparr>url := Some (py ''https://arxiv.org/abs/1''), embedding := Some [1]\<rparr>"

definition caller_chunk :: chunk_ref where
  "caller_chunk = \<lparr>ref_text = Some (py ''x''), ref_metadata = Some 0\<rparr>"

section \<open>Properties\<close>

subsection \<open>Strings\<close>

lemma split_from_words: "length (split_from [] (concat (replicate n [97, 32]))) = n"
  by (induction n) (simp_all add: isspace_def)

lemma py_a_space: "py ''a '' = [97, 32]"
  by (simp add: py_def)

lemma word_count_words_chunk: "length (split (get_text (words_chunk n))) = n"
  by (simp add: words_chunk_def get_text_def split_def py_a_space split_from_words)

lemma startswith_set: "startswith s p \<Longrightarrow> set p \<subseteq> set s"
  by (induction s p rule: startswith.induct) auto

lemma str_in_set: "str_in p s \<Longrightarrow> set p \<subseteq> set s"
  by (induction s) (fastforce dest: startswith_set)+

subsection \<open>The quality score\<close>

lemma set_words_text: "set (ascii_lower (get_text (words_chunk n))) \<subseteq> {97, 32}"
  by (auto simp: words_chunk_def get_text_def py_a_space ascii_lower_def)

lemma indicator_count_words_chunk:
  "indicator_count ascii_lower (get_text (words_chunk n)) = 0"
proof -
  have "\<not> str_in p (ascii_lower (get_text (words_chunk n)))"
    if "p \<in> set quality_indicators" for p
  proof
    assume "str_in p (ascii_lower (get_text (words_chunk n)))"
    then have "set p \<subseteq> {97, 32}"
      using str_in_set set_words_text by blast
    moreover have "\<exists>x \<in> set p. x \<noteq> 97 \<and> x \<noteq> 32"
      using that by (auto simp: quality_indicators_def py_def)
    ultimately show False by auto
  qed
  then show ?thesis by (simp add: indicator_count_def)
qed

text \<open>
  Claim C7, as the specification states it, fails at the thresholds: a text of exactly
  75 words with no indicator word has the base score 0.4 in the code, where the inclusive
  reading gives 0.6.
\<close>

theorem C7_counterexample:
  "assess_content_quality ascii_lower (words_chunk 75) = 4 / 10 \<and>
   quality_as_specified ascii_lower (words_chunk 75) = 6 / 10"
  by (simp add: assess_content_quality_def quality_as_specified_def Let_def
      word_count_words_chunk indicator_count_words_chunk)

text \<open>
  Claim C7, amended: for every chunk the quality score is a base from the word count, 1.0
  for more than 300 words, 0.8 for more than 150, 0.6 for more than 75 and 0.4 otherwise,
  plus 0.2 if the lower-cased text contains at least three of the ten indicator words,
  plus 0.1 if it contains one or two of them, capped at 1.0.
\<close>

theorem C7_quality_score:
  "assess_content_quality lower c =
     (let word_count = length (split (get_text c));
          n = indicator_count lower (get_text c)
      in min 1
           ((if word_count > 300 then 1
             else if word_count > 150 then 8 / 10
             else if word_count > 75 then 6 / 10
             else 4 / 10)
            + (if n \<ge> 3 then 2 / 10 else if 1 \<le> n \<and> n \<le> 2 then 1 / 10 else 0)))"
  by (simp add: assess_content_quality_def Let_def)

theorem C7_quality_score_witness:
  "assess_content_quality ascii_lower (words_chunk 76) = min 1 (6 / 10 + 0)"
  using C7_quality_score [of ascii_lower "words_chunk 76"]
  by (simp add: Let_def word_count_words_chunk indicator_count_words_chunk)

subsection \<open>Ranking\<close>

text \<open>
  Claim C5: \<open>rank_chunks\<close> returns the chunks in descending order of their final score;
  it is a stable sort, so the chunks of any one score keep their order; and ranking a
  ranked list changes nothing.
\<close>

theorem C5_rank_chunks_stable_idempotent:
  "sorted_wrt (\<lambda>a b. final_score_key a \<ge> final_score_key b) (rank_chunks chunks) \<and>
   mset (rank_chunks chunks) = mset chunks \<and>
   filter (\<lambda>c. final_score_key c = k) (rank_chunks chunks)
     = filter (\<lambda>c. final_score_key c = k) chunks \<and>
   rank_chunks (rank_chunks chunks) = rank_chunks chunks"
proof -
  let ?f = "\<lambda>c. - final_score_key c"
  have s: "sorted (map ?f (rank_chunks chunks))"
    by (simp add: rank_chunks_def)
  have 1: "sorted_wrt (\<lambda>a b. final_score_key a \<ge> final_score_key b) (rank_chunks chunks)"
    using s by (simp add: sorted_map)
  have 2: "mset (rank_chunks chunks) = mset chunks"
    by (simp add: rank_chunks_def)
  have "filter (\<lambda>c. ?f c = - k) (rank_chunks chunks) = filter (\<lambda>c. ?f c = - k) chunks"
    unfolding rank_chunks_def by (rule sort_key_stable)
  then have 3: "filter (\<lambda>c. final_score_key c = k) (rank_chunks chunks)
      = filter (\<lambda>c. final_score_key c = k) chunks"
    by simp
  have 4: "rank_chunks (rank_chunks chunks) = rank_chunks chunks"
    using s unfolding rank_chunks_def by (rule sort_key_id_if_sorted)
  show ?thesis using 1 2 3 4 by blast
qed

lemma key_scored: "final_score_key (scored n v) = v"
  by (simp add: final_score_key_def scored_def get_metadata_def get_or_def empty_metadata_def)

lemma rank_three:
  "rank_chunks [scored ''a'' (1 / 2), scored ''b'' (9 / 10), scored ''c'' (1 / 2)]
     = [scored ''b'' (9 / 10), scored ''a'' (1 / 2), scored ''c'' (1 / 2)]"
  by (simp add: rank_chunks_def key_scored)

theorem C5_rank_chunks_witness:
  "rank_chunks [scored ''a'' (1 / 2), scored ''b'' (9 / 10), scored ''c'' (1 / 2)]
     = [scored ''b'' (9 / 10), scored ''a'' (1 / 2), scored ''c'' (1 / 2)] \<and>
   filter (\<lambda>c. final_score_key c = 1 / 2)
     (rank_chunks [scored ''a'' (1 / 2), scored ''b'' (9 / 10), scored ''c'' (1 / 2)])
     = [scored ''a'' (1 / 2), scored ''c'' (1 / 2)] \<and>
   rank_chunks (rank_chunks [scored ''a'' (1 / 2), scored ''b'' (9 / 10), scored ''c'' (1 / 2)])
     = rank_chunks [scored ''a'' (1 / 2), scored ''b'' (9 / 10), scored ''c'' (1 / 2)]"
  using C5_rank_chunks_stable_idempotent
    [of "[scored ''a'' (1 / 2), scored ''b'' (9 / 10), scored ''c'' (1 / 2)]" "1 / 2"]
  by (simp add: rank_three key_scored)

subsection \<open>Authority\<close>

lemma distinct_domains: "distinct (map fst domain_scores)"
  by (simp add: domain_scores_def py_def)

lemma domain_authority_exact:
  "(domain, v) \<in> set domain_scores \<Longrightarrow> domain_authority domain = v"
  using distinct_domains by (simp add: domain_authority_def)

lemma domain_authority_partial:
  assumes "domain \<notin> fst ` set domain_scores" "j < length domain_scores"
    "endswith domain (46 # fst (domain_scores ! j))"
    "\<forall>k<j. \<not> endswith domain (46 # fst (domain_scores ! k))"
  shows "domain_authority domain = snd (domain_scores ! j) * (9 / 10)"
proof -
  have n: "map_of domain_scores domain = None"
    using assms(1) by (simp add: map_of_eq_None_iff)
  have "partial_match domain = Some (domain_scores ! j)"
    unfolding partial_match_def find_Some_iff using assms(2-4)
    by (auto simp: case_prod_unfold)
  then show ?thesis using n by (simp add: domain_authority_def case_prod_unfold)
qed

lemma domain_authority_default:
  assumes "domain \<notin> fst ` set domain_scores"
    "\<forall>d \<in> fst ` set domain_scores. \<not> endswith domain (46 # d)"
  shows "domain_authority domain = 1 / 2"
proof -
  have n: "map_of domain_scores domain = None"
    using assms(1) by (simp add: map_of_eq_None_iff)
  have "partial_match domain = None"
    unfolding partial_match_def find_None_iff using assms(2) by force
  then show ?thesis using n by (simp add: domain_authority_def)
qed

lemma authority_result:
  "i < length chunks \<Longrightarrow>
     authority_score (get_metadata (compute_authority_scores chunks ! i))
       = Some (authority_of (get_metadata (chunks ! i)))"
  by (simp add: compute_authority_scores_def with_authority_def get_metadata_def)

lemma academic_iff:
  "source_type md = Some (py ''academic'')
     \<longleftrightarrow> (case source_type md of None \<Rightarrow> [] | Some s \<Rightarrow> s) = py ''academic''"
  by (cases "source_type md") (auto simp: py_def)

text \<open>
  Claim C6: for the chunk at any position, \<open>compute_authority_scores\<close> stores a score
  built from a base value: the table value when the domain extracted from the URL is a
  key of the table; 0.9 times the value of the first table entry \<open>d\<close> such that the
  domain ends with a dot and \<open>d\<close>, when the domain is no key; 0.5 when neither holds.
  For the source type \<open>academic\<close> the base is multiplied by 1.1 and capped at 1.0.
\<close>

theorem C6_authority_scores:
  assumes "i < length chunks"
  shows "let md = get_metadata (chunks ! i);
             domain = extract_domain (case url md of None \<Rightarrow> [] | Some u \<Rightarrow> u);
             base = domain_authority domain
         in authority_score (get_metadata (compute_authority_scores chunks ! i))
              = Some (if source_type md = Some (py ''academic'')
                      then min 1 (base * (11 / 10)) else base) \<and>
            (\<forall>v. (domain, v) \<in> set domain_scores \<longrightarrow> base = v) \<and>
            (\<forall>j < length domain_scores.
               domain \<notin> fst ` set domain_scores \<and>
               endswith domain (46 # fst (domain_scores ! j)) \<and>
               (\<forall>k<j. \<not> endswith domain (46 # fst (domain_scores ! k)))
               \<longrightarrow> base = (9 / 10) * snd (domain_scores ! j)) \<and>
            (domain \<notin> fst ` set domain_scores \<and>
             (\<forall>d \<in> fst ` set domain_scores. \<not> endswith domain (46 # d))
               \<longrightarrow> base = 1 / 2)"
  unfolding Let_def authority_result [OF assms]
  using domain_authority_exact domain_authority_partial domain_authority_default
  by (simp add: authority_of_def Let_def academic_iff)

lemma domain_nature: "extract_domain (py ''https://www.nature.com/articles/x'') = py ''nature.com''"
  by code_simp

lemma domain_campus: "extract_domain (py ''http://cs.mit.edu/notes'') = py ''cs.mit.edu''"
  by code_simp

lemma authority_nature: "domain_authority (py ''nature.com'') = 95 / 100"
  by (simp add: domain_authority_def domain_scores_def py_def)

lemma authority_campus: "domain_authority (py ''cs.mit.edu'') = 72 / 100"
  by (simp add: domain_authority_def domain_scores_def py_def partial_match_def endswith_def)

theorem C6_authority_scores_witness:
  "authority_score (get_metadata (compute_authority_scores [nature_chunk, campus_chunk] ! 0))
     = Some 1 \<and>
   authority_score (get_metadata (compute_authority_scores [nature_chunk, campus_chunk] ! 1))
     = Some (72 / 100)"
  using C6_authority_scores [of 0 "[nature_chunk, campus_chunk]"]
    C6_authority_scores [of 1 "[nature_chunk, campus_chunk]"]
  by (simp add: Let_def nature_chunk_def campus_chunk_def get_metadata_def empty_metadata_def
      domain_nature domain_campus authority_nature authority_campus)

subsection \<open>Final scores\<close>

lemma final_score_of_fused:
  "semantic w + authority w + recency w + 1 / 10 \<noteq> 0 \<Longrightarrow> final_score_of w md = Inr (fused w md)"
  by (simp add: final_score_of_def fused_def Let_def)

lemma calculate_final_scores_map:
  assumes "semantic w + authority w + recency w + 1 / 10 \<noteq> 0"
  shows "calculate_final_scores w chunks =
     Inr (map (\<lambda>c. \<lparr>chunk_text = Some (get_text c),
                     metadata = Some ((get_metadata c)
                       \<lparr>final_score := Some (fused w (get_metadata c))\<rparr>)\<rparr>) chunks)"
  by (induction chunks) (simp_all add: final_score_of_fused [OF assms])

text \<open>
  Claim C1, as stated, fails for a weight configuration that sums to \<open>-0.1\<close>: the
  settings file is not normalised (its total is not positive), the divisor is zero and
  the call raises instead of setting a final score.
\<close>

theorem C1_counterexample:
  "calculate_final_scores (load_weights (Some negative_config)) [signals_chunk]
     = Inl ZeroDivisionError"
  by (simp add: load_weights_def negative_config_def get_or_def default_weights_def
      final_score_of_def Let_def)

text \<open>
  Claim C1, amended: for every list of chunks and every weight configuration with
  \<open>w_semantic + w_authority + w_recency + 0.1\<close> other than zero,
  \<open>calculate_final_scores\<close> returns one chunk for each chunk given, and sets its
  final score to \<open>(relevance * w_semantic + authority * w_authority + recency * w_recency
  + quality * 0.1) / (w_semantic + w_authority + w_recency + 0.1)\<close>, where a score that
  is absent from the metadata counts as 0.5.
\<close>

theorem C1_final_score_formula:
  assumes "semantic w + authority w + recency w + 1 / 10 \<noteq> 0"
  shows "\<exists>rs. calculate_final_scores w chunks = Inr rs \<and> length rs = length chunks \<and>
     (\<forall>i < length chunks.
        final_score (get_metadata (rs ! i)) =
          Some (((case relevance_score (get_metadata (chunks ! i)) of None \<Rightarrow> 1 / 2 | Some x \<Rightarrow> x)
                   * semantic w
                 + (case authority_score (get_metadata (chunks ! i)) of None \<Rightarrow> 1 / 2 | Some x \<Rightarrow> x)
                   * authority w
                 + (case recency_score (get_metadata (chunks ! i)) of None \<Rightarrow> 1 / 2 | Some x \<Rightarrow> x)
                   * recency w
                 + (case quality_score (get_metadata (chunks ! i)) of None \<Rightarrow> 1 / 2 | Some x \<Rightarrow> x)
                   * (1 / 10))
                / (semantic w + authority w + recency w + 1 / 10)))"
  unfolding calculate_final_scores_map [OF assms]
  by (simp add: fused_def get_or_def get_metadata_def)

theorem C1_final_score_formula_witness:
  "\<exists>rs. calculate_final_scores default_weights [signals_chunk] = Inr rs \<and>
     final_score (get_metadata (rs ! 0)) = Some (87 / 110)"
  using C1_final_score_formula [of default_weights "[signals_chunk]"]
  by (auto simp: default_weights_def signals_chunk_def get_metadata_def empty_metadata_def)

subsection \<open>Recency\<close>

lemma parse_formats_Some_iff:
  "parse_formats sp s fmts = Some d \<longleftrightarrow>
     (\<exists>k < length fmts. sp s (fmts ! k) = Some d \<and> (\<forall>j<k. sp s (fmts ! j) = None))"
proof (induction fmts)
  case Nil
  then show ?case by simp
next
  case (Cons f fs)
  show ?case
  proof (cases "sp s f")
    case None
    have "(\<exists>k<length fs. sp s (fs ! k) = Some d \<and> (\<forall>j<k. sp s (fs ! j) = None))
       \<longleftrightarrow> (\<exists>k<length (f # fs). sp s ((f # fs) ! k) = Some d \<and> (\<forall>j<k. sp s ((f # fs) ! j) = None))"
      (is "?L \<longleftrightarrow> ?R")
    proof
      assume ?L
      then obtain k where k: "k < length fs" "sp s (fs ! k) = Some d" "\<forall>j<k. sp s (fs ! j) = None" by blast
      have "\<forall>j<Suc k. sp s ((f # fs) ! j) = None"
        using k(3) None by (auto simp: nth_Cons split: nat.splits)
      then show ?R using k(1,2) by (intro exI[of _ "Suc k"]) simp
    next
      assume ?R
      then obtain k where k: "k < length (f # fs)" "sp s ((f # fs) ! k) = Some d" "\<forall>j<k. sp s ((f # fs) ! j) = None" by blast
      then obtain k' where k': "k = Suc k'" using None by (cases k) auto
      have "\<forall>j<k'. sp s (fs ! j) = None"
      proof (intro allI impI)
        fix j assume "j < k'"
        then have "Suc j < k" using k' by simp
        then show "sp s (fs ! j) = None" using k(3) by fastforce
      qed
      then show ?L using k(1,2) k' by (intro exI[of _ k']) simp
    qed
    then show ?thesis using None Cons.IH by simp
  next
    case (Some a)
    have "(\<exists>k<length (f # fs). sp s ((f # fs) ! k) = Some d \<and> (\<forall>j<k. sp s ((f # fs) ! j) = None)) \<longleftrightarrow> a = d"
    proof
      assume "\<exists>k<length (f # fs). sp s ((f # fs) ! k) = Some d \<and> (\<forall>j<k. sp s ((f # fs) ! j) = None)"
      then obtain k where k: "sp s ((f # fs) ! k) = Some d" "\<forall>j<k. sp s ((f # fs) ! j) = None" by blast
      have "k = 0" 
      proof (rule ccontr)
        assume "k \<noteq> 0" then have "sp s ((f # fs) ! 0) = None" using k(2) by blast
        then show False using Some by simp
      qed
      then show "a = d" using k(1) Some by simp
    next
      assume "a = d"
      then show "\<exists>k<length (f # fs). sp s ((f # fs) ! k) = Some d \<and> (\<forall>j<k. sp s ((f # fs) ! j) = None)"
        using Some by (intro exI[of _ 0]) simp
    qed
    then show ?thesis using Some by simp
  qed
qed

lemma parse_formats_None_iff:
  "parse_formats sp s fmts = None \<longleftrightarrow> (\<forall>fmt \<in> set fmts. sp s fmt = None)"
  by (induction fmts) (auto split: option.splits)

lemma decay_old: "1825 \<le> days \<Longrightarrow> decay days = 0"
  by (simp add: decay_def Let_def field_simps)

text \<open>
  Claim C8: \<open>calculate_recency_score\<close> returns exactly 0.5 when the metadata has no
  publication date, and when the date is a string that none of the accepted formats
  parses. When the date is a non-empty string and \<open>d\<close> is what the first format that
  parses it returns, or when the date is the \<open>datetime\<close> \<open>d\<close> itself, the score is
  \<open>max(0, 1 - years_old / 5)\<close> with \<open>years_old\<close> the age in whole days divided by 365;
  from 1825 days on it is 0.
\<close>

theorem C8_recency_score:
  "(publication_date (get_metadata c) = None \<longrightarrow> calculate_recency_score sp t c = 1 / 2) \<and>
   (\<forall>s. publication_date (get_metadata c) = Some (DateStr s) \<and>
        (\<forall>fmt \<in> set date_formats. sp s fmt = None)
        \<longrightarrow> calculate_recency_score sp t c = 1 / 2) \<and>
   (\<forall>s d k. publication_date (get_metadata c) = Some (DateStr s) \<and> s \<noteq> [] \<and>
        k < length date_formats \<and> sp s (date_formats ! k) = Some d \<and>
        (\<forall>j<k. sp s (date_formats ! j) = None)
        \<longrightarrow> calculate_recency_score sp t c
              = max 0 (1 - (real_of_int ((t - d) div 86400000000) / 365) / 5) \<and>
            (1825 \<le> (t - d) div 86400000000 \<longrightarrow> calculate_recency_score sp t c = 0)) \<and>
   (\<forall>d. publication_date (get_metadata c) = Some (DateObj d)
        \<longrightarrow> calculate_recency_score sp t c
              = max 0 (1 - (real_of_int ((t - d) div 86400000000) / 365) / 5) \<and>
            (1825 \<le> (t - d) div 86400000000 \<longrightarrow> calculate_recency_score sp t c = 0))"
proof (intro conjI allI impI)
  assume "publication_date (get_metadata c) = None"
  then show "calculate_recency_score sp t c = 1 / 2"
    by (simp add: calculate_recency_score_def)
next
  fix s
  assume a: "publication_date (get_metadata c) = Some (DateStr s) \<and>
        (\<forall>fmt \<in> set date_formats. sp s fmt = None)"
  then have "parse_formats sp s date_formats = None"
    by (simp add: parse_formats_None_iff)
  with a show "calculate_recency_score sp t c = 1 / 2"
    by (simp add: calculate_recency_score_def)
next
  fix s d k
  assume a: "publication_date (get_metadata c) = Some (DateStr s) \<and> s \<noteq> [] \<and>
        k < length date_formats \<and> sp s (date_formats ! k) = Some d \<and>
        (\<forall>j<k. sp s (date_formats ! j) = None)"
  then have "parse_formats sp s date_formats = Some d"
    unfolding parse_formats_Some_iff by blast
  with a have r: "calculate_recency_score sp t c = decay ((t - d) div 86400000000)"
    by (simp add: calculate_recency_score_def days_old_of_def)
  show "calculate_recency_score sp t c
      = max 0 (1 - (real_of_int ((t - d) div 86400000000) / 365) / 5)"
    unfolding r by (simp add: decay_def Let_def)
  assume "1825 \<le> (t - d) div 86400000000"
  then show "calculate_recency_score sp t c = 0"
    unfolding r by (simp add: decay_old)
next
  fix d
  assume a: "publication_date (get_metadata c) = Some (DateObj d)"
  then have r: "calculate_recency_score sp t c = decay ((t - d) div 86400000000)"
    by (simp add: calculate_recency_score_def days_old_of_def)
  show "calculate_recency_score sp t c
      = max 0 (1 - (real_of_int ((t - d) div 86400000000) / 365) / 5)"
    unfolding r by (simp add: decay_def Let_def)
  assume "1825 \<le> (t - d) div 86400000000"
  then show "calculate_recency_score sp t c = 0"
    unfolding r by (simp add: decay_old)
qed

lemma example_now_days: "example_now = 20761 * 86400000000"
  by (simp add: example_now_def days_from_civil_def Let_def)

lemmas example_strptime_eval =
  example_strptime_def py_def is_digits_def number_def days_in_month_def
  days_from_civil_def Let_def

lemma example_dates:
  "example_strptime (py ''2025-11-04'') (py ''%Y-%m-%d'') = Some (20396 * 86400000000)"
  "example_strptime (py ''2015/01/01'') (py ''%Y-%m-%d'') = None"
  "example_strptime (py ''2015/01/01'') (py ''%Y/%m/%d'') = Some (16436 * 86400000000)"
  "example_strptime (py ''last year'') (py ''%Y-%m-%d'') = None"
  "example_strptime (py ''last year'') (py ''%Y/%m/%d'') = None"
  "example_strptime (py ''last year'') (py ''%Y-%m-%dT%H:%M:%S'') = None"
  by (simp_all add: example_strptime_eval)

theorem C8_recency_score_witness:
  "calculate_recency_score example_strptime example_now undated_chunk = 1 / 2 \<and>
   calculate_recency_score example_strptime example_now (dated_chunk ''last year'') = 1 / 2 \<and>
   calculate_recency_score example_strptime example_now (dated_chunk ''2025-11-04'') = 4 / 5 \<and>
   calculate_recency_score example_strptime example_now (dated_chunk ''2015/01/01'') = 0"
proof -
  have md: "publication_date (get_metadata (dated_chunk s)) = Some (DateStr (py s))" for s
    by (simp add: dated_chunk_def get_metadata_def empty_metadata_def)
  have f: "date_formats = [py ''%Y-%m-%d'', py ''%Y/%m/%d'', py ''%Y-%m-%dT%H:%M:%S'']"
    by (simp add: date_formats_def)
  have 1: "calculate_recency_score example_strptime example_now undated_chunk = 1 / 2"
    using C8_recency_score [of undated_chunk example_strptime example_now]
    by (simp add: undated_chunk_def get_metadata_def empty_metadata_def)
  have 2: "calculate_recency_score example_strptime example_now (dated_chunk ''last year'') = 1 / 2"
    using C8_recency_score [of "dated_chunk ''last year''" example_strptime example_now]
    by (simp add: md f example_dates)
  have ne: "py ''2025-11-04'' \<noteq> []" "py ''2015/01/01'' \<noteq> []" by (simp_all add: py_def)
  have 3: "calculate_recency_score example_strptime example_now (dated_chunk ''2025-11-04'') = 4 / 5"
    using C8_recency_score [of "dated_chunk ''2025-11-04''" example_strptime example_now,
      THEN conjunct2, THEN conjunct2, THEN conjunct1, rule_format,
      of "py ''2025-11-04''" 0 "20396 * 86400000000"]
    by (simp add: md f example_dates ne example_now_days)
  have 4: "calculate_recency_score example_strptime example_now (dated_chunk ''2015/01/01'') = 0"
    using C8_recency_score [of "dated_chunk ''2015/01/01''" example_strptime example_now,
      THEN conjunct2, THEN conjunct2, THEN conjunct1, rule_format,
      of "py ''2015/01/01''" 1 "16436 * 86400000000"]
    by (simp add: md f example_dates ne example_now_days)
  show ?thesis using 1 2 3 4 by simp
qed

subsection \<open>The embedder\<close>

lemma length_doubled: "length (doubled k xs) = 2 ^ k * length xs"
  by (induction k) (simp_all add: doubled_def)

lemma doubled_Suc: "doubled (Suc k) xs = doubled k xs @ doubled k xs"
  by (simp add: doubled_def)

lemma nth_doubled:
  "i < 2 ^ k * length xs \<Longrightarrow> doubled k xs ! i = xs ! (i mod length xs)"
proof (induction k arbitrary: i)
  case 0
  then show ?case by (simp add: doubled_def)
next
  case (Suc k)
  let ?n = "2 ^ k * length xs"
  show ?case
  proof (cases "i < ?n")
    case True
    then show ?thesis using Suc.IH [of i]
      by (simp add: doubled_Suc nth_append length_doubled)
  next
    case False
    then have "i - ?n < ?n" using Suc.prems by simp
    then have "doubled k xs ! (i - ?n) = xs ! ((i - ?n) mod length xs)"
      by (rule Suc.IH)
    moreover have "(i - ?n) mod length xs = i mod length xs"
      using False by (metis le_mod_geq linorder_not_less mod_mult_self2 mult.commute mod_if le_add_diff_inverse2)
    ultimately show ?thesis using False
      by (simp add: doubled_Suc nth_append length_doubled)
  qed
qed

lemma tile_step: "length xs < 1536 \<Longrightarrow> tile xs = tile (xs @ xs)"
  by (subst tile.simps) simp

lemma tile_done: "1536 \<le> length xs \<Longrightarrow> tile xs = Some xs"
  by (subst tile.simps) simp

lemma tile_doubled_step:
  "2 ^ k * length xs < 1536 \<Longrightarrow> tile (doubled k xs) = tile (doubled (Suc k) xs)"
  using tile_step [of "doubled k xs"] by (simp add: length_doubled doubled_Suc)

lemma tile_16: 
  assumes "length xs = 16"
  shows "tile xs = Some (doubled 7 xs)"
proof -
  have "tile xs = tile (doubled 0 xs)" by (simp add: doubled_def)
  also have "\<dots> = tile (doubled 1 xs)" using tile_doubled_step [of 0 xs] assms by simp
  also have "\<dots> = tile (doubled 2 xs)" using tile_doubled_step [of 1 xs] assms by (simp add: numeral_2_eq_2)
  also have "\<dots> = tile (doubled 3 xs)" using tile_doubled_step [of 2 xs] assms by (simp add: numeral_3_eq_3)
  also have "\<dots> = tile (doubled 4 xs)" using tile_doubled_step [of 3 xs] assms by (simp add: eval_nat_numeral)
  also have "\<dots> = tile (doubled 5 xs)" using tile_doubled_step [of 4 xs] assms by (simp add: eval_nat_numeral)
  also have "\<dots> = tile (doubled 6 xs)" using tile_doubled_step [of 5 xs] assms by (simp add: eval_nat_numeral)
  also have "\<dots> = tile (doubled 7 xs)" using tile_doubled_step [of 6 xs] assms by (simp add: eval_nat_numeral)
  also have "\<dots> = Some (doubled 7 xs)" using assms by (intro tile_done) (simp add: length_doubled)
  finally show ?thesis .
qed

lemma length_digest_values: "length (digest_values d) = 16"
  by (simp add: digest_values_def)

lemma nth_digest_values: "j < 16 \<Longrightarrow> digest_values d ! j = real (unat (d j)) / 128 - 1"
  by (simp add: digest_values_def)

lemma nat_value_range: "n < 256 \<Longrightarrow> - 1 \<le> real n / 128 - 1 \<and> real n / 128 - 1 \<le> 1"
  by simp

lemma byte_value_range:
  "- 1 \<le> real (unat (b :: byte)) / 128 - 1 \<and> real (unat b) / 128 - 1 \<le> 1"
proof -
  have "unat b < 256" using unsigned_less [of b] by simp
  then show ?thesis by (rule nat_value_range)
qed

lemma mock_embedding_encoded:
  assumes "encode txt = Inr bs"
  shows "mock_embedding E txt = Inr (take 1536 (doubled 7 (digest_values (md5 E bs))))"
  using assms by (simp add: mock_embedding_def tile_16 length_digest_values)

lemma nth_mock_vector:
  assumes "i < 1536"
  shows "take 1536 (doubled 7 (digest_values d)) ! i = real (unat (d (i mod 16))) / 128 - 1"
proof -
  have "i < 2 ^ 7 * length (digest_values d)"
    using assms by (simp add: length_digest_values)
  then have "doubled 7 (digest_values d) ! i = digest_values d ! (i mod 16)"
    using nth_doubled [of i 7 "digest_values d"] by (simp add: length_digest_values)
  then show ?thesis using assms by (simp add: nth_digest_values)
qed

lemma length_mock_vector: "length (take 1536 (doubled 7 (digest_values d))) = 1536"
  by (simp add: length_doubled length_digest_values)

lemma try_methods_nonempty: "try_methods ms txt = Some v \<Longrightarrow> v \<noteq> []"
  by (induction ms) (auto split: sum.splits option.splits if_splits)

text \<open>
  On a text that UTF-8 can encode, \<open>embed_content\<close> returns a non-empty vector and does
  not raise, whatever the provider and the local model do. When neither of them gives a
  non-empty vector, the result is the fallback embedding. The fallback has exactly 1536
  entries, entry \<open>i\<close> is byte \<open>i mod 16\<close> of the digest of the encoded text divided by
  128, minus 1, and lies in \<open>[-1, 1]\<close>.
\<close>

lemma embed_content_encodable:
  assumes "encode txt = Inr bs"
  shows "(\<exists>v. embed_content E txt = Inr v \<and> v \<noteq> []) \<and>
     (try_methods [api_embedding E, local_embedding E] txt = None
        \<longrightarrow> embed_content E txt = mock_embedding E txt) \<and>
     (\<exists>v. mock_embedding E txt = Inr v \<and> length v = 1536 \<and>
        (\<forall>i < 1536. v ! i = real (unat (md5 E bs (i mod 16))) / 128 - 1 \<and>
                     - 1 \<le> v ! i \<and> v ! i \<le> 1))"
proof (intro conjI)
  let ?m = "take 1536 (doubled 7 (digest_values (md5 E bs)))"
  have mock: "mock_embedding E txt = Inr ?m"
    by (rule mock_embedding_encoded [OF assms])
  have ne: "?m \<noteq> []"
    using length_mock_vector [of "md5 E bs"] by auto
  show "\<exists>v. embed_content E txt = Inr v \<and> v \<noteq> []"
  proof (cases "try_methods [api_embedding E, local_embedding E, mock_method E] txt")
    case None
    then show ?thesis using mock ne by (simp add: embed_content_def)
  next
    case (Some v)
    then show ?thesis using try_methods_nonempty [OF Some] by (simp add: embed_content_def)
  qed
  show "try_methods [api_embedding E, local_embedding E] txt = None
        \<longrightarrow> embed_content E txt = mock_embedding E txt"
    using mock ne
    by (auto simp: embed_content_def mock_method_def split: sum.splits option.splits if_splits)
  show "\<exists>v. mock_embedding E txt = Inr v \<and> length v = 1536 \<and>
        (\<forall>i < 1536. v ! i = real (unat (md5 E bs (i mod 16))) / 128 - 1 \<and>
                     - 1 \<le> v ! i \<and> v ! i \<le> 1)"
    using mock length_mock_vector [of "md5 E bs"] nth_mock_vector [of _ "md5 E bs"]
      byte_value_range
    by (intro exI [of _ ?m]) simp
qed

lemma encode_abc: "encode (py ''abc'') = Inr [97, 98, 99]"
  by (simp add: py_def utf8_char_def)

lemma embed_content_encodable_example:
  "\<exists>v. embed_content offline_embedder (py ''abc'') = Inr v \<and> length v = 1536 \<and>
     v ! 0 = - (45 / 64) \<and> v ! 17 = - (73 / 128)"
proof -
  have none: "try_methods [api_embedding offline_embedder, local_embedding offline_embedder]
      (py ''abc'') = None"
    by (simp add: api_embedding_def local_embedding_def offline_embedder_def)
  have d: "md5 offline_embedder = example_digest"
    by (simp add: offline_embedder_def)
  from embed_content_encodable [OF encode_abc, of offline_embedder] none
  obtain v where v: "embed_content offline_embedder (py ''abc'') = Inr v" "length v = 1536"
    "\<forall>i < 1536. v ! i = real (unat (example_digest [97, 98, 99] (i mod 16))) / 128 - 1"
    unfolding d by auto
  have "v ! 0 = - (45 / 64)" using v(3) [rule_format, of 0]
    by (simp add: example_digest_def)
  moreover have "v ! 17 = - (73 / 128)" using v(3) [rule_format, of 17]
    by (simp add: example_digest_def)
  ultimately show ?thesis using v(1,2) by blast
qed

text \<open>
  Claim C9: \<open>embed_content\<close> is to be total, returning the deterministic fallback when
  the provider and the local model fail. The code sets out to be: it catches the exception
  of every method and ends with "if all methods fail, use mock embedding". But that last
  call is outside every \<open>try\<close>, and the fallback itself raises where \<open>text.encode()\<close>
  does. On the text that is the single surrogate D800, with no API key and no local
  model, the fallback raises, the loop over the methods catches it and yields nothing, and
  \<open>embed_content\<close> raises \<open>UnicodeEncodeError\<close>.
\<close>

theorem C9_embed_content_raises:
  "mock_embedding offline_embedder [55296] = Inl UnicodeEncodeError \<and>
   try_methods
     [api_embedding offline_embedder, local_embedding offline_embedder,
      mock_method offline_embedder] [55296] = None \<and>
   embed_content offline_embedder [55296] = Inl UnicodeEncodeError"
  by (simp add: embed_content_def api_embedding_def local_embedding_def mock_method_def
      mock_embedding_def offline_embedder_def utf8_char_def)

subsection \<open>The pipeline on the examples\<close>


lemma sim_offline:
  "compute_similarity offline_embedder [1] [1] = Inr 1"
  "compute_similarity offline_embedder [1] [- 1] = Inr (- 1)"
  "compute_similarity offline_embedder [1, 1] [1] = Inl ValueError"
  by (simp_all add: compute_similarity_def offline_embedder_def exact_norm_def exact_dot_def)


lemma embedded_fields:
  "chunk_text (embedded_chunk t v) = Some (py t)"
  "metadata (embedded_chunk t v) = Some (empty_metadata\<lparr>embedding := Some v\<rparr>)"
  "get_metadata (embedded_chunk t v) = empty_metadata\<lparr>embedding := Some v\<rparr>"
  "get_text (embedded_chunk t v) = py t"
  by (simp_all add: embedded_chunk_def get_metadata_def get_text_def)

lemma get_or_embed_embedded:
  "v \<noteq> [] \<Longrightarrow> get_or_embed E (embedded_chunk t v) = Inr (Some v)"
  by (simp add: get_or_embed_def embedded_fields truthy_def)






subsection \<open>rank\_content\<close>









subsection \<open>process\_and\_rank\<close>







subsection \<open>Ranges of the signals\<close>

















subsection \<open>Writes to the caller's metadata\<close>

lemma recency_stage_store_keeps:
  "take (length s) (snd (recency_stage_store sp t s cs)) = s"
proof (induction cs arbitrary: s)
  case Nil
  then show ?case by simp
next
  case (Cons c cs)
  let ?s1 = "s @ [(get_metadata (chunk_at s c))
      \<lparr>recency_score := Some (calculate_recency_score sp t (chunk_at s c))\<rparr>]"
  have "take (length ?s1) (snd (recency_stage_store sp t ?s1 cs)) = ?s1"
    by (rule Cons.IH)
  then have "take (length s) (take (length ?s1) (snd (recency_stage_store sp t ?s1 cs)))
      = take (length s) ?s1"
    by simp
  then have "take (length s) (snd (recency_stage_store sp t ?s1 cs)) = s"
    by (simp add: min_def)
  then show ?case
    by (simp add: Let_def case_prod_unfold)
qed

lemma quality_one_word:
  "assess_content_quality ascii_lower \<lparr>chunk_text = Some (py ''x''), metadata = None\<rparr> = 4 / 10"
  by (simp add: assess_content_quality_def get_text_def py_def split_def
      isspace_def indicator_count_def quality_indicators_def ascii_lower_def Let_def)

lemma domain_arxiv: "extract_domain (py ''https://arxiv.org/abs/1'') = py ''arxiv.org''"
  by code_simp

lemma authority_caller: "authority_of caller_metadata = 85 / 100"
  by (simp add: authority_of_def caller_metadata_def empty_metadata_def domain_arxiv Let_def)
     (simp add: domain_authority_def domain_scores_def py_def)

lemma final_caller: "final_score_of default_weights caller_metadata = Inr (1 / 2)"
  by (simp add: final_score_of_def caller_metadata_def empty_metadata_def default_weights_def
      get_or_def Let_def)

text \<open>
  Claim C3 says that no stage writes to a chunk it is given. The stages say so of
  themselves (each ends with "create a copy with updated metadata"), and the recency
  stage of \<open>select_content\<close> does copy, with \<open>metadata.copy()\<close>. But \<open>score_chunks\<close>,
  \<open>compute_authority_scores\<close> and \<open>calculate_final_scores\<close> write into the dictionary
  the caller's chunk refers to: after each of them the caller's metadata, at address 0,
  holds the new scores and differs from what it was, and the chunk returned refers to that
  same dictionary.
\<close>

theorem C3_stages_write_to_caller_metadata:
  "score_chunks_store offline_embedder ascii_lower (embedded_chunk ''q'' [1])
       [caller_metadata] [caller_chunk]
     = (Inr [caller_chunk],
        [caller_metadata\<lparr>relevance_score := Some 1, quality_score := Some (4 / 10)\<rparr>]) \<and>
   compute_authority_scores_store [caller_metadata] [caller_chunk]
     = ([caller_chunk], [caller_metadata\<lparr>authority_score := Some (85 / 100)\<rparr>]) \<and>
   calculate_final_scores_store default_weights [caller_metadata] [caller_chunk]
     = (Inr [caller_chunk], [caller_metadata\<lparr>final_score := Some (1 / 2)\<rparr>]) \<and>
   caller_metadata\<lparr>relevance_score := Some 1, quality_score := Some (4 / 10)\<rparr> \<noteq> caller_metadata \<and>
   caller_metadata\<lparr>authority_score := Some (85 / 100)\<rparr> \<noteq> caller_metadata \<and>
   caller_metadata\<lparr>final_score := Some (1 / 2)\<rparr> \<noteq> caller_metadata"
proof -
  have e: "embedding caller_metadata = Some [1]"
    by (simp add: caller_metadata_def)
  have r: "metadata_ref [caller_metadata] caller_chunk = ([caller_metadata], 0)"
    "ref_text caller_chunk = Some (py ''x'')" "ref_get_text caller_chunk = py ''x''"
    by (simp_all add: metadata_ref_def caller_chunk_def ref_get_text_def)
  have c: "\<lparr>ref_text = Some (py ''x''), ref_metadata = Some 0\<rparr> = caller_chunk"
    by (simp add: caller_chunk_def)
  have u: "caller_metadata\<lparr>embedding := Some [1]\<rparr> = caller_metadata"
    by (simp add: caller_metadata_def)
  have 1: "score_chunks_store offline_embedder ascii_lower (embedded_chunk ''q'' [1])
       [caller_metadata] [caller_chunk]
     = (Inr [caller_chunk],
        [caller_metadata\<lparr>relevance_score := Some 1, quality_score := Some (4 / 10)\<rparr>])"
    by (simp add: score_chunks_store_def get_or_embed_embedded truthy_def r e sim_offline
        quality_one_word c Let_def)
  have 2: "compute_authority_scores_store [caller_metadata] [caller_chunk]
     = ([caller_chunk], [caller_metadata\<lparr>authority_score := Some (85 / 100)\<rparr>])"
    by (simp add: r authority_caller c Let_def)
  have 3: "calculate_final_scores_store default_weights [caller_metadata] [caller_chunk]
     = (Inr [caller_chunk], [caller_metadata\<lparr>final_score := Some (1 / 2)\<rparr>])"
    by (simp add: r final_caller c Let_def)
  have 4: "caller_metadata\<lparr>relevance_score := Some 1, quality_score := Some (4 / 10)\<rparr> \<noteq> caller_metadata"
    "caller_metadata\<lparr>authority_score := Some (85 / 100)\<rparr> \<noteq> caller_metadata"
    "caller_metadata\<lparr>final_score := Some (1 / 2)\<rparr> \<noteq> caller_metadata"
    by (simp_all add: caller_metadata_def empty_metadata_def)
  show ?thesis using 1 2 3 4 by simp
qed

subsection \<open>The store and the values\<close>

lemma map_store_props:
  assumes idem: "\<And>m. u (u m) = u m"
  shows "refs_in s cs \<Longrightarrow> map_store u s cs = (rs, s') \<Longrightarrow>
     length rs = length cs \<and> length s \<le> length s' \<and>
     (\<forall>a < length s. s' ! a = (if Some a \<in> ref_metadata ` set cs then u (s ! a) else s ! a)) \<and>
     (\<forall>i < length cs. ref_text (rs ! i) = Some (ref_get_text (cs ! i)) \<and>
        (\<exists>b. ref_metadata (rs ! i) = Some b \<and> b < length s' \<and>
           s' ! b = u (case ref_metadata (cs ! i) of None \<Rightarrow> empty_metadata | Some a \<Rightarrow> s ! a)))"
proof (induction cs arbitrary: s rs s')
  case Nil
  then show ?case by simp
next
  case (Cons c cs)
  obtain s1 a0 where m: "metadata_ref s c = (s1, a0)" by (cases "metadata_ref s c")
  let ?s2 = "s1[a0 := u (s1 ! a0)]"
  obtain rs' s3 where t: "map_store u ?s2 cs = (rs', s3)" by (cases "map_store u ?s2 cs")
  have rs: "rs = \<lparr>ref_text = Some (ref_get_text c), ref_metadata = Some a0\<rparr> # rs'" and s': "s' = s3"
    using Cons.prems(2) m t by (simp_all add: Let_def)
  have valid_c: "case ref_metadata c of None \<Rightarrow> True | Some a \<Rightarrow> a < length s"
    and valid_cs: "refs_in s cs"
    using Cons.prems(1) by (simp_all add: refs_in_def)
  have s1: "length s \<le> length s1" "a0 < length s1" "\<forall>a < length s. s1 ! a = s ! a"
    "s1 ! a0 = (case ref_metadata c of None \<Rightarrow> empty_metadata | Some a \<Rightarrow> s ! a)"
    "\<forall>a < length s. (ref_metadata c = Some a) = (a0 = a)"
    using m valid_c by (auto simp: metadata_ref_def nth_append split: option.splits)
  have len2: "length ?s2 = length s1" by simp
  have "refs_in ?s2 cs"
    using valid_cs s1(1) by (auto simp: refs_in_def list_all_iff split: option.splits)
  from Cons.IH [OF this t]
  have ih: "length rs' = length cs" "length ?s2 \<le> length s3"
    "\<forall>a < length ?s2. s3 ! a = (if Some a \<in> ref_metadata ` set cs then u (?s2 ! a) else ?s2 ! a)"
    "\<forall>i < length cs. ref_text (rs' ! i) = Some (ref_get_text (cs ! i)) \<and>
        (\<exists>b. ref_metadata (rs' ! i) = Some b \<and> b < length s3 \<and>
           s3 ! b = u (case ref_metadata (cs ! i) of None \<Rightarrow> empty_metadata | Some a \<Rightarrow> ?s2 ! a))"
    by simp_all
  have two: "?s2 ! a = (if a = a0 then u (s1 ! a0) else s1 ! a)" if "a < length s1" for a
    using that by (simp add: nth_list_update)
  have head: "s3 ! a0 = u (s1 ! a0)"
    using ih(3) s1(2) two [of a0] idem by (simp del: nth_list_update_eq)
  have A: "length rs = length (c # cs)" using rs ih(1) by simp
  have B: "length s \<le> length s'" using s' ih(2) s1(1) len2 by simp
  have C: "\<forall>a < length s. s' ! a
      = (if Some a \<in> ref_metadata ` set (c # cs) then u (s ! a) else s ! a)"
  proof (intro allI impI)
    fix a assume a: "a < length s"
    then have a1: "a < length s1" "a < length ?s2" using s1(1) by simp_all
    have e: "s1 ! a = s ! a" using s1(3) a by simp
    have c: "(ref_metadata c = Some a) = (a0 = a)" using s1(5) a by simp
    have "Some a \<in> ref_metadata ` set (c # cs)
        \<longleftrightarrow> a0 = a \<or> Some a \<in> ref_metadata ` set cs"
      using c by (auto simp: image_iff)
    then show "s' ! a = (if Some a \<in> ref_metadata ` set (c # cs) then u (s ! a) else s ! a)"
      unfolding s' using ih(3) [rule_format, OF a1(2)] two [OF a1(1)] e idem
      by (auto simp del: nth_list_update_eq)
  qed
  have D: "\<forall>i < length (c # cs). ref_text (rs ! i) = Some (ref_get_text ((c # cs) ! i)) \<and>
        (\<exists>b. ref_metadata (rs ! i) = Some b \<and> b < length s' \<and>
           s' ! b = u (case ref_metadata ((c # cs) ! i) of
                         None \<Rightarrow> empty_metadata | Some a \<Rightarrow> s ! a))"
  proof (intro allI impI)
    fix i assume i: "i < length (c # cs)"
    show "ref_text (rs ! i) = Some (ref_get_text ((c # cs) ! i)) \<and>
        (\<exists>b. ref_metadata (rs ! i) = Some b \<and> b < length s' \<and>
           s' ! b = u (case ref_metadata ((c # cs) ! i) of
                         None \<Rightarrow> empty_metadata | Some a \<Rightarrow> s ! a))"
    proof (cases i)
      case 0
      have "a0 < length s'" using s' ih(2) s1(2) len2 by simp
      then show ?thesis using 0 rs s' head s1(4) by simp
    next
      case (Suc j)
      then have j: "j < length cs" using i by simp
      from ih(4) [rule_format, OF j] obtain b where b:
        "ref_text (rs' ! j) = Some (ref_get_text (cs ! j))"
        "ref_metadata (rs' ! j) = Some b" "b < length s3"
        "s3 ! b = u (case ref_metadata (cs ! j) of None \<Rightarrow> empty_metadata | Some a \<Rightarrow> ?s2 ! a)"
        by blast
      have "u (case ref_metadata (cs ! j) of None \<Rightarrow> empty_metadata | Some a \<Rightarrow> ?s2 ! a)
          = u (case ref_metadata (cs ! j) of None \<Rightarrow> empty_metadata | Some a \<Rightarrow> s ! a)"
      proof (cases "ref_metadata (cs ! j)")
        case None
        then show ?thesis by simp
      next
        case (Some a)
        have "cs ! j \<in> set cs" using j by simp
        then have a: "a < length s"
          using valid_cs Some by (auto simp: refs_in_def list_all_iff split: option.splits)
        then have a1: "a < length s1" using s1(1) by simp
        have "u (?s2 ! a) = u (s ! a)"
          using two [OF a1] s1(3) s1(4) s1(5) a idem
          by (auto simp del: nth_list_update_eq split: option.splits)
        then show ?thesis using Some by simp
      qed
      then show ?thesis using Suc rs s' b by simp
    qed
  qed
  show ?case using A B C D by blast
qed

lemma map_store_values:
  assumes "\<And>m. u (u m) = u m" "refs_in s cs" "map_store u s cs = (rs, s')"
  shows "map (chunk_at s') rs
     = map (\<lambda>c. \<lparr>chunk_text = Some (get_text c), metadata = Some (u (get_metadata c))\<rparr>)
         (map (chunk_at s) cs)"
proof (rule nth_equalityI)
  note p = map_store_props [of u, OF assms]
  show "length (map (chunk_at s') rs)
      = length (map (\<lambda>c. \<lparr>chunk_text = Some (get_text c), metadata = Some (u (get_metadata c))\<rparr>)
         (map (chunk_at s) cs))"
    using p by simp
  fix i assume "i < length (map (chunk_at s') rs)"
  then have i: "i < length cs" "i < length rs" using p by simp_all
  from p i(1) obtain b where b: "ref_text (rs ! i) = Some (ref_get_text (cs ! i))"
    "ref_metadata (rs ! i) = Some b"
    "s' ! b = u (case ref_metadata (cs ! i) of None \<Rightarrow> empty_metadata | Some a \<Rightarrow> s ! a)"
    by blast
  have g: "get_metadata (chunk_at s (cs ! i))
      = (case ref_metadata (cs ! i) of None \<Rightarrow> empty_metadata | Some a \<Rightarrow> s ! a)"
    "get_text (chunk_at s (cs ! i)) = ref_get_text (cs ! i)"
    by (simp_all add: chunk_at_def get_metadata_def get_text_def ref_get_text_def
        split: option.splits)
  show "map (chunk_at s') rs ! i
      = map (\<lambda>c. \<lparr>chunk_text = Some (get_text c), metadata = Some (u (get_metadata c))\<rparr>)
         (map (chunk_at s) cs) ! i"
    using i b g by (simp add: chunk_at_def)
qed

lemma authority_store_is_map_store:
  "compute_authority_scores_store s cs
     = map_store (\<lambda>md. md\<lparr>authority_score := Some (authority_of md)\<rparr>) s cs"
  by (induction cs arbitrary: s) (simp_all add: Let_def case_prod_unfold)

lemma authority_of_update [simp]:
  "authority_of (md\<lparr>authority_score := x\<rparr>) = authority_of md"
  by (simp add: authority_of_def)

text \<open>
  With the metadata dictionaries in a store, whatever chunks share one, the authority
  stage returns the chunks that \<open>compute_authority_scores\<close> returns on the values.
\<close>

lemma authority_store_values:
  assumes "refs_in s cs" "compute_authority_scores_store s cs = (rs, s')"
  shows "map (chunk_at s') rs = compute_authority_scores (map (chunk_at s) cs)"
proof -
  have "map_store (\<lambda>md. md\<lparr>authority_score := Some (authority_of md)\<rparr>) s cs = (rs, s')"
    using assms(2) by (simp add: authority_store_is_map_store)
  from map_store_values [OF _ assms(1) this]
  show ?thesis by (simp add: compute_authority_scores_def with_authority_def)
qed

lemma fused_update [simp]: "fused w (md\<lparr>final_score := x\<rparr>) = fused w md"
  by (simp add: fused_def)

lemma final_store_is_map_store:
  assumes "semantic w + authority w + recency w + 1 / 10 \<noteq> 0"
  shows "calculate_final_scores_store w s cs
     = (Inr (fst (map_store (\<lambda>md. md\<lparr>final_score := Some (fused w md)\<rparr>) s cs)),
        snd (map_store (\<lambda>md. md\<lparr>final_score := Some (fused w md)\<rparr>) s cs))"
  by (induction cs arbitrary: s)
     (simp_all add: Let_def case_prod_unfold final_score_of_fused [OF assms])

text \<open>The same for the fusion stage, when the divisor is not zero.\<close>

lemma final_store_values:
  assumes "semantic w + authority w + recency w + 1 / 10 \<noteq> 0" "refs_in s cs"
  shows "\<exists>rs s'. calculate_final_scores_store w s cs = (Inr rs, s') \<and>
     calculate_final_scores w (map (chunk_at s) cs) = Inr (map (chunk_at s') rs)"
proof -
  obtain rs s' where m: "map_store (\<lambda>md. md\<lparr>final_score := Some (fused w md)\<rparr>) s cs = (rs, s')"
    by (cases "map_store (\<lambda>md. md\<lparr>final_score := Some (fused w md)\<rparr>) s cs")
  have "calculate_final_scores_store w s cs = (Inr rs, s')"
    using m by (simp add: final_store_is_map_store [OF assms(1)])
  moreover have "calculate_final_scores w (map (chunk_at s) cs) = Inr (map (chunk_at s') rs)"
    using map_store_values [OF _ assms(2) m]
    by (simp add: calculate_final_scores_map [OF assms(1)])
  ultimately show ?thesis by blast
qed

end
